theory Spec2Isabelle
  imports Main "HOL-Library.AList" "HOL-Library.Word"
begin

section \<open>Values shared by the three modules\<close>

text \<open>
  Python values that travel through the handlers: decoded JSON (the result of
  \<^verbatim>\<open>json.loads\<close>, the claim set of a token), byte strings, instants.
  A \<^verbatim>\<open>datetime\<close> is the number of microseconds since the epoch and a
  \<^verbatim>\<open>timedelta\<close> a number of microseconds, both unbounded integers as in Python.
  A Python float is kept as what it denotes: \<open>Float m e\<close> is \<open>m\<close> times 2 to the
  \<open>e\<close>; \<^verbatim>\<open>json.loads\<close> also returns the three values that are not numbers of JSON.
\<close>

datatype pyfloat = Float int int | NaN | Infinity | NegInfinity

datatype jv =
    JNull | JBool bool | JNum int | JFloat pyfloat | JStr string
  | JArr "jv list" | JObj "(string \<times> jv) list"

type_synonym bytes = "8 word list"
type_synonym datetime = int
type_synonym timedelta = int
type_synonym pydict = "(string \<times> jv) list"

definition timedelta_minutes :: "int \<Rightarrow> timedelta" where
  "timedelta_minutes m = m * 60000000"

text \<open>Exceptions. \<^verbatim>\<open>HTTPException(status_code, detail, headers)\<close> is what the
  handlers raise themselves. \<open>UtilsError\<close> stands for the \<^verbatim>\<open>HTTPException\<close> raised
  inside \<^verbatim>\<open>utils.validate_file_type\<close> and \<^verbatim>\<open>utils.validate_file_size\<close>: that module
  is not among the sources, so its status codes and wording are unknown and the error is
  named by the kind the specification gives it. Every other exception is an
  \<open>Exception\<close> with its class and its message (\<^verbatim>\<open>str(e)\<close>).
  \<^verbatim>\<open>json.JSONDecodeError\<close> is a subclass of \<^verbatim>\<open>ValueError\<close>.\<close>

datatype validation_kind = UnsupportedType | TooLarge nat

datatype http_error =
    HTTPError nat string "(string \<times> string) list"
  | UtilsError validation_kind

datatype exc_class = ValueError | JSONDecodeError | JWTError | OtherError

datatype exn = HTTPException http_error | Exception exc_class string

fun is_ValueError :: "exc_class \<Rightarrow> bool" where
  "is_ValueError ValueError = True"
| "is_ValueError JSONDecodeError = True"
| "is_ValueError JWTError = False"
| "is_ValueError OtherError = False"

section \<open>Configuration\<close>

text \<open>\<^verbatim>\<open>config.settings\<close>: the fields the sources read. \<open>max_file_size\<close>,
  \<open>allowed_image_types\<close> and \<open>allowed_video_types\<close> are the configured limits the
  specification gives to the validators of \<^verbatim>\<open>utils\<close>.\<close>

record settings =
  jwt_secret_key :: string
  jwt_algorithm :: string
  jwt_access_token_expire_minutes :: int
  max_file_size :: nat
  allowed_image_types :: "string list"
  allowed_video_types :: "string list"

section \<open>auth.py\<close>

subsection \<open>The token library\<close>

text \<open>
  \<^verbatim>\<open>jose.jwt\<close> is a third-party library. A token is kept symbolically: the claim set
  together with the key and the algorithm it was signed with, or a string that is no
  token at all; \<^verbatim>\<open>jwt.encode\<close> builds the former and keeps a \<^verbatim>\<open>datetime\<close> claim in
  whole seconds (\<open>timegm\<close>). \<^verbatim>\<open>jwt.decode(token, key, algorithms)\<close> is a parameter of
  the functions that call it: what the call answers, the claim set or an exception.
  \<^verbatim>\<open>JWTError\<close> stands for the class and its subclasses
  (\<^verbatim>\<open>ExpiredSignatureError\<close>, \<^verbatim>\<open>JWTClaimsError\<close>).
\<close>

datatype token = Signed pydict string string | Opaque string

type_synonym jwt_decoder = "token \<Rightarrow> string \<Rightarrow> string list \<Rightarrow> exn + pydict"

definition timegm :: "datetime \<Rightarrow> int" where
  "timegm t = t div 1000000"

definition jwt_encode :: "pydict \<Rightarrow> string \<Rightarrow> string \<Rightarrow> token" where
  "jwt_encode claims key algorithm = Signed claims key algorithm"

subsection \<open>generate_jwt_token, parse_jwt_payload, extract_authenticated_id\<close>

text \<open>\<^verbatim>\<open>if expiration_offset:\<close> tests the truth value of an
  \<^verbatim>\<open>Optional[timedelta]\<close>: \<^verbatim>\<open>None\<close> and the zero duration are both false.
  \<open>now\<close> is the reading of \<^verbatim>\<open>datetime.utcnow()\<close>.\<close>

definition generate_jwt_token :: "settings \<Rightarrow> datetime \<Rightarrow> pydict \<Rightarrow> timedelta option \<Rightarrow> token" where
  "generate_jwt_token cfg now data expiration_offset =
     (let default_expire = now + timedelta_minutes (jwt_access_token_expire_minutes cfg);
          expire = (case expiration_offset of
                      None \<Rightarrow> default_expire
                    | Some d \<Rightarrow> if d \<noteq> 0 then now + d else default_expire);
          jwt_payload = AList.update ''exp'' (JNum (timegm expire)) data
      in jwt_encode jwt_payload (jwt_secret_key cfg) (jwt_algorithm cfg))"

definition credentials_error :: http_error where
  "credentials_error =
     HTTPError 401 ''Could not validate credentials'' [(''WWW-Authenticate'', ''Bearer'')]"

text \<open>\<^verbatim>\<open>except JWTError\<close> is the only clause: any other exception of the library
  leaves the function as it is.\<close>

definition parse_jwt_payload :: "jwt_decoder \<Rightarrow> settings \<Rightarrow> token \<Rightarrow> exn + pydict" where
  "parse_jwt_payload jwt_decode cfg tok =
     (case jwt_decode tok (jwt_secret_key cfg) [jwt_algorithm cfg] of
        Inr payload \<Rightarrow> Inr payload
      | Inl (Exception JWTError m) \<Rightarrow> Inl (HTTPException credentials_error)
      | Inl e \<Rightarrow> Inl e)"

text \<open>\<^verbatim>\<open>payload.get("sub")\<close> is \<^verbatim>\<open>None\<close> both when the key is absent and when
  its value is JSON null. The function has no \<^verbatim>\<open>try\<close> of its own.\<close>

definition extract_authenticated_id :: "jwt_decoder \<Rightarrow> settings \<Rightarrow> token \<Rightarrow> exn + jv" where
  "extract_authenticated_id jwt_decode cfg tok =
     (case parse_jwt_payload jwt_decode cfg tok of
        Inl e \<Rightarrow> Inl e
      | Inr payload \<Rightarrow>
          (case map_of payload ''sub'' of
             None \<Rightarrow> Inl (HTTPException credentials_error)
           | Some JNull \<Rightarrow> Inl (HTTPException credentials_error)
           | Some user_id \<Rightarrow> Inr user_id))"

section \<open>Documents, collaborators and effects\<close>

text \<open>
  The documents of the store are Python dicts with a fixed set of keys, written by
  \<^verbatim>\<open>register\<close> and \<^verbatim>\<open>upload_media\<close>; they are records here, so a document that
  was found is never the empty (false) dict. Timestamps are kept as the instant whose
  ISO-8601 rendering the code stores.
\<close>

record account =
  account_id :: string
  username :: string
  email :: string
  hashed_password :: string
  created_at :: datetime

record asset =
  asset_id :: string
  userId :: string
  fileName :: string
  originalFileName :: string
  mediaType :: string
  fileSize :: nat
  mimeType :: string
  blobUrl :: string
  thumbnailUrl :: "string option"
  description :: "string option"
  tags :: "jv list option"
  uploadedAt :: datetime
  updatedAt :: datetime

record upload_file =
  filename :: string
  content_type :: string
  content :: bytes

text \<open>
  \<^verbatim>\<open>database.cosmos_db\<close>, \<^verbatim>\<open>storage.blob_storage\<close>, \<^verbatim>\<open>utils\<close>, the password
  hasher of \<^verbatim>\<open>passlib\<close> and \<^verbatim>\<open>json.loads\<close> are not among the sources. A handler
  receives them as a record of functions: what each call answers during the request, an
  exception (\<open>Inl\<close>) or a value. \<^verbatim>\<open>generate_thumbnail\<close> returns the preview bytes
  or \<^verbatim>\<open>None\<close>, which is what its caller tests, or raises; \<^verbatim>\<open>json.loads\<close> returns
  the decoded value or raises, a \<^verbatim>\<open>JSONDecodeError\<close> or another exception
  (\<^verbatim>\<open>RecursionError\<close> on deep nesting, for one).
\<close>

record collaborators =
  cosmos_get_user_by_email :: "string \<Rightarrow> exn + account option"
  cosmos_create_user :: "account \<Rightarrow> exn + account"
  cosmos_get_media_by_id :: "string \<Rightarrow> string \<Rightarrow> exn + asset option"
  cosmos_create_media :: "asset \<Rightarrow> exn + asset"
  cosmos_update_media :: "string \<Rightarrow> string \<Rightarrow> pydict \<Rightarrow> exn + asset"
  cosmos_delete_media :: "string \<Rightarrow> string \<Rightarrow> exn + unit"
  blob_upload_file :: "bytes \<Rightarrow> string \<Rightarrow> string \<Rightarrow> string \<Rightarrow> exn + string \<times> string"
  blob_delete_file :: "string \<Rightarrow> exn + unit"
  validate_file_type :: "upload_file \<Rightarrow> exn + string"
  validate_file_size :: "upload_file \<Rightarrow> exn + nat"
  generate_thumbnail :: "bytes \<Rightarrow> exn + bytes option"
  json_loads :: "string \<Rightarrow> exn + jv"
  cipher_hash :: "string \<Rightarrow> exn + string"
  cipher_verify :: "string \<Rightarrow> string \<Rightarrow> exn + bool"

text \<open>What a request reads from its surroundings: the identifier that
  \<^verbatim>\<open>uuid.uuid4()\<close> draws and the successive readings of \<^verbatim>\<open>datetime.utcnow()\<close>
  (the first is reading 0).\<close>

record env =
  uuid4 :: string
  utcnow :: "nat \<Rightarrow> datetime"

text \<open>What a request does to its surroundings, in order: the log lines and the calls
  that write to the document store or to the blob store. A call is recorded when it is
  issued, whether it then returns or raises. \<open>LogExc l p e\<close> is the line
  \<^verbatim>\<open>f"{p}{e}"\<close> for a caught exception \<open>e\<close>.\<close>

datatype log_level = Info | Warning | Error

datatype effect =
    Log log_level string
  | LogExc log_level string exn
  | DbCreateUser account
  | DbCreateMedia asset
  | DbUpdateMedia string string pydict
  | DbDeleteMedia string string
  | BlobUpload bytes string string string
  | BlobDelete string

fun is_blob_write :: "effect \<Rightarrow> bool" where
  "is_blob_write (BlobUpload b u n c) = True"
| "is_blob_write (BlobDelete k) = True"
| "is_blob_write e = False"

fun is_db_write :: "effect \<Rightarrow> bool" where
  "is_db_write (DbCreateUser a) = True"
| "is_db_write (DbCreateMedia a) = True"
| "is_db_write (DbUpdateMedia m u c) = True"
| "is_db_write (DbDeleteMedia m u) = True"
| "is_db_write e = False"

definition no_store_write :: "effect list \<Rightarrow> bool" where
  "no_store_write fx = (filter (\<lambda>e. is_blob_write e \<or> is_db_write e) fx = [])"

section \<open>routes_auth.py\<close>

record UserCreate =
  uc_username :: string
  uc_email :: string
  uc_password :: string

record LoginRequest =
  lr_email :: string
  lr_password :: string

record UserResponse =
  ur_id :: string
  ur_username :: string
  ur_email :: string
  ur_createdAt :: datetime

record Token =
  tk_token :: token
  tk_user :: UserResponse

subsection \<open>register\<close>

text \<open>The body of the \<^verbatim>\<open>try\<close> block, then the \<^verbatim>\<open>except\<close> clauses in their order.\<close>

definition register_body ::
  "collaborators \<Rightarrow> settings \<Rightarrow> env \<Rightarrow> UserCreate \<Rightarrow> (exn + Token) \<times> effect list" where
  "register_body C cfg ev account_params =
     (let fx0 = [Log Info (''Registration attempt for email: '' @ uc_email account_params)] in
      case cosmos_get_user_by_email C (uc_email account_params) of
        Inl e \<Rightarrow> (Inl e, fx0)
      | Inr (Some prior_account) \<Rightarrow>
          (Inl (HTTPException (HTTPError 400 ''User with this email already exists'' [])),
           fx0 @ [Log Warning (''Registration failed: Email already exists '' @ uc_email account_params)])
      | Inr None \<Rightarrow>
          (case cipher_hash C (uc_password account_params) of
             Inl e \<Rightarrow> (Inl e, fx0)
           | Inr digest \<Rightarrow>
               (let account_record =
                      \<lparr>account_id = uuid4 ev, username = uc_username account_params,
                       email = uc_email account_params, hashed_password = digest,
                       created_at = utcnow ev 0\<rparr>;
                    fx1 = fx0 @ [DbCreateUser account_record]
                in case cosmos_create_user C account_record of
                     Inl e \<Rightarrow> (Inl e, fx1)
                   | Inr persisted_account \<Rightarrow>
                       (let signed_token =
                              generate_jwt_token cfg (utcnow ev 1)
                                [(''sub'', JStr (uuid4 ev)), (''email'', JStr (uc_email account_params))] None;
                            account_response =
                              \<lparr>ur_id = account_id persisted_account,
                               ur_username = username persisted_account,
                               ur_email = email persisted_account,
                               ur_createdAt = created_at persisted_account\<rparr>
                        in (Inr \<lparr>tk_token = signed_token, tk_user = account_response\<rparr>,
                            fx1 @ [Log Info (''User created successfully: '' @ uc_email account_params)])))))"

definition register ::
  "collaborators \<Rightarrow> settings \<Rightarrow> env \<Rightarrow> UserCreate \<Rightarrow> (http_error + Token) \<times> effect list" where
  "register C cfg ev account_params =
     (case register_body C cfg ev account_params of
        (Inr r, fx) \<Rightarrow> (Inr r, fx)
      | (Inl (HTTPException h), fx) \<Rightarrow> (Inl h, fx)
      | (Inl (Exception c m), fx) \<Rightarrow>
          (if is_ValueError c
           then (Inl (HTTPError 400 m []),
                 fx @ [LogExc Error ''Registration validation error: '' (Exception c m)])
           else (Inl (HTTPError 500 (''Failed to register user: '' @ m) []),
                 fx @ [LogExc Error ''Registration error: '' (Exception c m)])))"

subsection \<open>login\<close>

definition login_body ::
  "collaborators \<Rightarrow> settings \<Rightarrow> env \<Rightarrow> LoginRequest \<Rightarrow> (exn + Token) \<times> effect list" where
  "login_body C cfg ev credential_payload =
     (let fx0 = [Log Info (''Login attempt for email: '' @ lr_email credential_payload)] in
      case cosmos_get_user_by_email C (lr_email credential_payload) of
        Inl e \<Rightarrow> (Inl e, fx0)
      | Inr None \<Rightarrow>
          (Inl (HTTPException (HTTPError 401 ''Invalid email or password'' [])),
           fx0 @ [Log Warning (''Login failed: User not found for email '' @ lr_email credential_payload)])
      | Inr (Some account_entity) \<Rightarrow>
          (case cipher_verify C (lr_password credential_payload) (hashed_password account_entity) of
             Inl e \<Rightarrow> (Inl e, fx0)
           | Inr False \<Rightarrow>
               (Inl (HTTPException (HTTPError 401 ''Invalid email or password'' [])),
                fx0 @ [Log Warning (''Login failed: Invalid password for email '' @ lr_email credential_payload)])
           | Inr True \<Rightarrow>
               (let signed_token =
                      generate_jwt_token cfg (utcnow ev 0)
                        [(''sub'', JStr (account_id account_entity)), (''email'', JStr (email account_entity))] None;
                    account_response =
                      \<lparr>ur_id = account_id account_entity, ur_username = username account_entity,
                       ur_email = email account_entity, ur_createdAt = created_at account_entity\<rparr>
                in (Inr \<lparr>tk_token = signed_token, tk_user = account_response\<rparr>,
                    fx0 @ [Log Info (''Login successful for user: '' @ email account_entity)]))))"

definition login ::
  "collaborators \<Rightarrow> settings \<Rightarrow> env \<Rightarrow> LoginRequest \<Rightarrow> (http_error + Token) \<times> effect list" where
  "login C cfg ev credential_payload =
     (case login_body C cfg ev credential_payload of
        (Inr r, fx) \<Rightarrow> (Inr r, fx)
      | (Inl (HTTPException h), fx) \<Rightarrow> (Inl h, fx)
      | (Inl (Exception c m), fx) \<Rightarrow>
          (Inl (HTTPError 500 (''Failed to login: '' @ m) []),
           fx @ [LogExc Error ''Login error: '' (Exception c m)]))"

section \<open>routes_media.py\<close>

record MediaUpdate =
  mu_description :: "string option"
  mu_tags :: "string list option"

subsection \<open>Python string operations used by delete_media\<close>

text \<open>\<^verbatim>\<open>s.split("/")[-1]\<close>: what follows the last slash, all of \<open>s\<close> when it has
  none. \<^verbatim>\<open>s.replace(old, new)\<close>: every occurrence, left to right, without overlap;
  an empty \<open>old\<close> matches before every character and at the end.\<close>

definition split_last :: "string \<Rightarrow> string" where
  "split_last s = rev (takeWhile (\<lambda>c. c \<noteq> CHR ''/'') (rev s))"

fun py_replace :: "string \<Rightarrow> string \<Rightarrow> string \<Rightarrow> string" where
  "py_replace [] old new = (if old = [] then new else [])"
| "py_replace (c # cs) old new =
     (if old = [] then new @ c # py_replace cs old new
      else if take (length old) (c # cs) = old
           then new @ py_replace (drop (length old) (c # cs)) old new
           else c # py_replace cs old new)"

subsection \<open>upload_media\<close>

text \<open>Lines 35 to 45. \<^verbatim>\<open>if tags:\<close> skips an absent and an empty payload. The
  \<^verbatim>\<open>except\<close> clause of this block catches \<^verbatim>\<open>json.JSONDecodeError\<close> only: any
  other exception of \<^verbatim>\<open>json.loads\<close>, and the \<^verbatim>\<open>ValueError\<close> raised for a value that
  is not a list, pass it.\<close>

fun isinstance_list :: "jv \<Rightarrow> bool" where
  "isinstance_list (JArr xs) = True"
| "isinstance_list v = False"

definition parse_tags :: "collaborators \<Rightarrow> string option \<Rightarrow> exn + jv list option" where
  "parse_tags C tgs =
     (case tgs of
        None \<Rightarrow> Inr None
      | Some t \<Rightarrow>
          if t = [] then Inr None
          else (case json_loads C t of
                  Inl (Exception JSONDecodeError m) \<Rightarrow>
                    Inl (HTTPException
                          (HTTPError 400 ''Invalid tags format. Must be a JSON array.'' []))
                | Inl e \<Rightarrow> Inl e
                | Inr (JArr label_collection) \<Rightarrow> Inr (Some label_collection)
                | Inr v \<Rightarrow> Inl (Exception ValueError ''Tags must be an array'')))"

text \<open>Lines 54 to 68: the preview location, or the exception that leaves the block, and
  what the block did. The call of \<^verbatim>\<open>generate_thumbnail\<close> stands before the inner
  \<^verbatim>\<open>try\<close>, so its exception leaves the block; the inner \<^verbatim>\<open>except Exception\<close>
  catches every exception of the second upload.\<close>

definition store_thumbnail ::
  "collaborators \<Rightarrow> string \<Rightarrow> upload_file \<Rightarrow> string
     \<Rightarrow> (exn + string option) \<times> effect list" where
  "store_thumbnail C asset_category file user_id =
     (if asset_category = ''image''
      then (case generate_thumbnail C (content file) of
              Inl e \<Rightarrow> (Inl e, [])
            | Inr None \<Rightarrow> (Inr None, [])
            | Inr (Some preview_data) \<Rightarrow>
                if preview_data = [] then (Inr None, [])
                else (let call = BlobUpload preview_data user_id (''thumb_'' @ filename file) ''image/jpeg''
                      in case blob_upload_file C preview_data user_id (''thumb_'' @ filename file) ''image/jpeg'' of
                           Inl e \<Rightarrow> (Inr None, [call, LogExc Warning ''Failed to upload thumbnail: '' e])
                         | Inr (preview_name, preview_location) \<Rightarrow> (Inr (Some preview_location), [call])))
      else (Inr None, []))"

text \<open>The body of the \<^verbatim>\<open>try\<close> block. \<^verbatim>\<open>models.py\<close> is not among the sources:
  \<^verbatim>\<open>MediaResponse(**persisted_asset)\<close> is the persisted document itself, which is what
  the specification returns ("return the created record unchanged").\<close>

definition upload_body ::
  "collaborators \<Rightarrow> env \<Rightarrow> upload_file \<Rightarrow> string option \<Rightarrow> string option \<Rightarrow> string
     \<Rightarrow> (exn + asset) \<times> effect list" where
  "upload_body C ev file descr tgs user_id =
     (case validate_file_type C file of
        Inl e \<Rightarrow> (Inl e, [])
      | Inr asset_category \<Rightarrow>
     (case validate_file_size C file of
        Inl e \<Rightarrow> (Inl e, [])
      | Inr content_size \<Rightarrow>
     (case parse_tags C tgs of
        Inl e \<Rightarrow> (Inl e, [])
      | Inr label_collection \<Rightarrow>
     (let fx1 = [BlobUpload (content file) user_id (filename file) (content_type file)] in
      case blob_upload_file C (content file) user_id (filename file) (content_type file) of
        Inl e \<Rightarrow> (Inl e, fx1)
      | Inr (storage_identifier, storage_location) \<Rightarrow>
     (case store_thumbnail C asset_category file user_id of
        (Inl e, fx2) \<Rightarrow> (Inl e, fx1 @ fx2)
      | (Inr preview_location, fx2) \<Rightarrow>
     (let asset_document =
            \<lparr>asset_id = uuid4 ev, userId = user_id, fileName = storage_identifier,
             originalFileName = filename file, mediaType = asset_category,
             fileSize = content_size, mimeType = content_type file,
             blobUrl = storage_location, thumbnailUrl = preview_location,
             description = descr, tags = label_collection,
             uploadedAt = utcnow ev 0, updatedAt = utcnow ev 0\<rparr>;
          fx3 = fx1 @ fx2 @ [DbCreateMedia asset_document]
      in case cosmos_create_media C asset_document of
           Inl e \<Rightarrow> (Inl e, fx3)
         | Inr persisted_asset \<Rightarrow> (Inr persisted_asset, fx3)))))))"

definition upload_media ::
  "collaborators \<Rightarrow> env \<Rightarrow> upload_file \<Rightarrow> string option \<Rightarrow> string option \<Rightarrow> string
     \<Rightarrow> (http_error + asset) \<times> effect list" where
  "upload_media C ev file descr tgs user_id =
     (case upload_body C ev file descr tgs user_id of
        (Inr r, fx) \<Rightarrow> (Inr r, fx)
      | (Inl (HTTPException h), fx) \<Rightarrow> (Inl h, fx)
      | (Inl (Exception c m), fx) \<Rightarrow>
          (Inl (HTTPError 500 (''Failed to upload media: '' @ m) []),
           fx @ [LogExc Error ''Upload error: '' (Exception c m)]))"

subsection \<open>get_media_by_id\<close>

definition get_media_body :: "collaborators \<Rightarrow> string \<Rightarrow> string \<Rightarrow> exn + asset" where
  "get_media_body C media_id user_id =
     (case cosmos_get_media_by_id C media_id user_id of
        Inl e \<Rightarrow> Inl e
      | Inr None \<Rightarrow> Inl (HTTPException (HTTPError 404 ''Media not found'' []))
      | Inr (Some asset_record) \<Rightarrow>
          if userId asset_record \<noteq> user_id
          then Inl (HTTPException
                     (HTTPError 403 ''You don't have permission to access this media'' []))
          else Inr asset_record)"

definition get_media_by_id ::
  "collaborators \<Rightarrow> string \<Rightarrow> string \<Rightarrow> (http_error + asset) \<times> effect list" where
  "get_media_by_id C media_id user_id =
     (case get_media_body C media_id user_id of
        Inr r \<Rightarrow> (Inr r, [])
      | Inl (HTTPException h) \<Rightarrow> (Inl h, [])
      | Inl (Exception c m) \<Rightarrow>
          (Inl (HTTPError 500 ''Failed to retrieve media'' []),
           [LogExc Error ''Get media error: '' (Exception c m)]))"

subsection \<open>update_media_metadata\<close>

text \<open>Lines 217 to 223: the dict of changes, built by assignment.\<close>

definition property_changes :: "datetime \<Rightarrow> MediaUpdate \<Rightarrow> pydict" where
  "property_changes now modification_payload =
     (let c0 = [(''updatedAt'', JNum now)];
          c1 = (case mu_description modification_payload of
                  None \<Rightarrow> c0
                | Some d \<Rightarrow> AList.update ''description'' (JStr d) c0);
          c2 = (case mu_tags modification_payload of
                  None \<Rightarrow> c1
                | Some ts \<Rightarrow> AList.update ''tags'' (JArr (map JStr ts)) c1)
      in c2)"

definition update_body ::
  "collaborators \<Rightarrow> env \<Rightarrow> string \<Rightarrow> MediaUpdate \<Rightarrow> string \<Rightarrow> (exn + asset) \<times> effect list" where
  "update_body C ev media_id modification_payload user_id =
     (case cosmos_get_media_by_id C media_id user_id of
        Inl e \<Rightarrow> (Inl e, [])
      | Inr None \<Rightarrow> (Inl (HTTPException (HTTPError 404 ''Media not found'' [])), [])
      | Inr (Some asset_record) \<Rightarrow>
          if userId asset_record \<noteq> user_id
          then (Inl (HTTPException
                      (HTTPError 403 ''You don't have permission to update this media'' [])), [])
          else (let changes = property_changes (utcnow ev 0) modification_payload;
                    fx = [DbUpdateMedia media_id user_id changes]
                in case cosmos_update_media C media_id user_id changes of
                     Inl e \<Rightarrow> (Inl e, fx)
                   | Inr revised_asset \<Rightarrow> (Inr revised_asset, fx)))"

definition update_media_metadata ::
  "collaborators \<Rightarrow> env \<Rightarrow> string \<Rightarrow> MediaUpdate \<Rightarrow> string
     \<Rightarrow> (http_error + asset) \<times> effect list" where
  "update_media_metadata C ev media_id modification_payload user_id =
     (case update_body C ev media_id modification_payload user_id of
        (Inr r, fx) \<Rightarrow> (Inr r, fx)
      | (Inl (HTTPException h), fx) \<Rightarrow> (Inl h, fx)
      | (Inl (Exception c m), fx) \<Rightarrow>
          (if is_ValueError c then (Inl (HTTPError 404 m []), fx)
           else (Inl (HTTPError 500 ''Failed to update media'' []),
                 fx @ [LogExc Error ''Update media error: '' (Exception c m)])))"

subsection \<open>delete_media\<close>

text \<open>\<^verbatim>\<open>asset_record.get("thumbnailUrl")\<close> is true for a non-empty string. The
  first \<^verbatim>\<open>delete_file\<close> stands directly in the outer \<^verbatim>\<open>try\<close>; the second one has a
  \<^verbatim>\<open>try\<close> of its own.\<close>

definition preview_identifier :: "asset \<Rightarrow> string" where
  "preview_identifier asset_record =
     py_replace (fileName asset_record)
       (split_last (originalFileName asset_record))
       (''thumb_'' @ split_last (originalFileName asset_record))"

fun truthy_str :: "string option \<Rightarrow> bool" where
  "truthy_str None = False"
| "truthy_str (Some s) = (s \<noteq> [])"

definition delete_thumbnail :: "collaborators \<Rightarrow> asset \<Rightarrow> effect list" where
  "delete_thumbnail C asset_record =
     (if truthy_str (thumbnailUrl asset_record)
      then (case blob_delete_file C (preview_identifier asset_record) of
              Inl e \<Rightarrow> [BlobDelete (preview_identifier asset_record),
                        LogExc Warning ''Failed to delete thumbnail: '' e]
            | Inr u \<Rightarrow> [BlobDelete (preview_identifier asset_record)])
      else [])"

definition delete_body ::
  "collaborators \<Rightarrow> string \<Rightarrow> string \<Rightarrow> (exn + unit) \<times> effect list" where
  "delete_body C media_id user_id =
     (case cosmos_get_media_by_id C media_id user_id of
        Inl e \<Rightarrow> (Inl e, [])
      | Inr None \<Rightarrow> (Inl (HTTPException (HTTPError 404 ''Media not found'' [])), [])
      | Inr (Some asset_record) \<Rightarrow>
          if userId asset_record \<noteq> user_id
          then (Inl (HTTPException
                      (HTTPError 403 ''You don't have permission to delete this media'' [])), [])
          else (let fx1 = [BlobDelete (fileName asset_record)] in
                case blob_delete_file C (fileName asset_record) of
                  Inl e \<Rightarrow> (Inl e, fx1)
                | Inr u \<Rightarrow>
                    (let fx2 = fx1 @ delete_thumbnail C asset_record @ [DbDeleteMedia media_id user_id]
                     in case cosmos_delete_media C media_id user_id of
                          Inl e \<Rightarrow> (Inl e, fx2)
                        | Inr v \<Rightarrow> (Inr (), fx2))))"

definition delete_media ::
  "collaborators \<Rightarrow> string \<Rightarrow> string \<Rightarrow> (http_error + unit) \<times> effect list" where
  "delete_media C media_id user_id =
     (case delete_body C media_id user_id of
        (Inr r, fx) \<Rightarrow> (Inr r, fx)
      | (Inl (HTTPException h), fx) \<Rightarrow> (Inl h, fx)
      | (Inl (Exception c m), fx) \<Rightarrow>
          (Inl (HTTPError 500 ''Failed to delete media'' []),
           fx @ [LogExc Error ''Delete media error: '' (Exception c m)]))"

section \<open>The collaborators as the specification describes them\<close>

text \<open>Modelled from the spec: \<^verbatim>\<open>AssetStore.findById(assetId) -> MediaAsset|absent\<close>
  (section 6). \<^verbatim>\<open>database.py\<close> is not among the sources; the store is the list of its
  asset documents and the lookup goes by the asset id alone.\<close>

definition findById :: "asset list \<Rightarrow> string \<Rightarrow> asset option" where
  "findById store media_id = find (\<lambda>a. asset_id a = media_id) store"

text \<open>Modelled from the spec: \<^verbatim>\<open>AccountStore.findByEmail(email) -> Account|absent\<close>
  (section 6), over the list of the account documents.\<close>

definition findByEmail :: "account list \<Rightarrow> string \<Rightarrow> account option" where
  "findByEmail accounts e = find (\<lambda>a. email a = e) accounts"

text \<open>Modelled from the spec: the account store after the writes of a request;
  \<^verbatim>\<open>AccountStore.create(Account)\<close> adds the document it is given.\<close>

fun accounts_after :: "effect list \<Rightarrow> account list \<Rightarrow> account list" where
  "accounts_after [] accounts = accounts"
| "accounts_after (DbCreateUser a # fx) accounts = accounts_after fx (accounts @ [a])"
| "accounts_after (e # fx) accounts = accounts_after fx accounts"

text \<open>Modelled from the spec: \<^verbatim>\<open>AssetStore.update(assetId, ownerAccountId, fieldChanges)\<close>
  (section 6) with "fields omitted from the request are left unchanged" (section 4.5):
  every key of the changes overwrites the field of that name, and nothing else is touched.
  Only \<^verbatim>\<open>updatedAt\<close>, \<^verbatim>\<open>description\<close> and \<^verbatim>\<open>tags\<close> are ever sent.\<close>

fun apply_field :: "string \<times> jv \<Rightarrow> asset \<Rightarrow> asset" where
  "apply_field (k, v) a =
     (if k = ''updatedAt'' then (case v of JNum t \<Rightarrow> a\<lparr>updatedAt := t\<rparr> | _ \<Rightarrow> a)
      else if k = ''description''
        then (case v of JStr d \<Rightarrow> a\<lparr>description := Some d\<rparr>
                      | JNull \<Rightarrow> a\<lparr>description := None\<rparr> | _ \<Rightarrow> a)
      else if k = ''tags''
        then (case v of JArr ts \<Rightarrow> a\<lparr>tags := Some ts\<rparr>
                      | JNull \<Rightarrow> a\<lparr>tags := None\<rparr> | _ \<Rightarrow> a)
      else a)"

definition apply_changes :: "pydict \<Rightarrow> asset \<Rightarrow> asset" where
  "apply_changes changes a = fold apply_field changes a"

text \<open>Modelled from the spec: step 1 of the ingest pipeline (section 4.4), "classify the
  declared content type into image or video, or fail with
  \<^verbatim>\<open>ValidationError::UnsupportedType\<close>". \<^verbatim>\<open>utils.py\<close> is not among the sources.\<close>

definition validate_file_type_spec :: "settings \<Rightarrow> upload_file \<Rightarrow> exn + string" where
  "validate_file_type_spec cfg file =
     (if content_type file \<in> set (allowed_image_types cfg) then Inr ''image''
      else if content_type file \<in> set (allowed_video_types cfg) then Inr ''video''
      else Inl (HTTPException (UtilsError UnsupportedType)))"

text \<open>Modelled from the spec: step 2 of the ingest pipeline (section 4.4), "reject if
  byte length exceeds a configured maximum, failing with
  \<^verbatim>\<open>ValidationError::TooLarge\<close>; report the actual size". \<^verbatim>\<open>utils.py\<close> is not among
  the sources; the value returned is the size, which the handler stores as
  \<^verbatim>\<open>fileSize\<close>.\<close>

definition validate_file_size_spec :: "settings \<Rightarrow> upload_file \<Rightarrow> exn + nat" where
  "validate_file_size_spec cfg file =
     (if max_file_size cfg < length (content file)
      then Inl (HTTPException (UtilsError (TooLarge (length (content file)))))
      else Inr (length (content file)))"

section \<open>Example surroundings\<close>

text \<open>Concrete settings, clock, documents and collaborators on which the handlers are
  evaluated below. \<open>example_json_loads\<close> gives the answers of \<^verbatim>\<open>json.loads\<close> on the
  payloads \<^verbatim>\<open>[]\<close>, \<^verbatim>\<open>[1]\<close>, \<^verbatim>\<open>{}\<close> and \<^verbatim>\<open>not json\<close>; every other
  payload is outside the example. \<open>example_jwt_decode now\<close> gives the answers of
  \<^verbatim>\<open>jose.jwt.decode\<close>, when the clock reads \<open>now\<close>, on strings that are no tokens and
  on tokens whose claims are among \<^verbatim>\<open>sub\<close> and \<^verbatim>\<open>email\<close> (strings) and \<^verbatim>\<open>exp\<close>
  (an integer), which are the tokens this repository issues; every other token is outside
  the example. The example collaborators answer as the specification describes them and never
  fail; a failing collaborator is obtained by updating a field.\<close>

definition example_settings :: settings where
  "example_settings =
     \<lparr>jwt_secret_key = ''secret'', jwt_algorithm = ''HS256'',
      jwt_access_token_expire_minutes = 30, max_file_size = 4,
      allowed_image_types = [''image/png'', ''image/jpeg''],
      allowed_video_types = [''video/mp4'']\<rparr>"

definition example_env :: env where
  "example_env = \<lparr>uuid4 = ''id-1'', utcnow = (\<lambda>k. 100000000 + int k)\<rparr>"

definition example_account :: account where
  "example_account =
     \<lparr>account_id = ''u2'', username = ''bo'', email = ''bo@example.org'',
      hashed_password = ''hash:pw'', created_at = 5\<rparr>"

definition example_asset :: asset where
  "example_asset =
     \<lparr>asset_id = ''m1'', userId = ''u2'', fileName = ''u2/77_cat.png'',
      originalFileName = ''cat.png'', mediaType = ''image'', fileSize = 3,
      mimeType = ''image/png'', blobUrl = ''https://blobs/u2/77_cat.png'',
      thumbnailUrl = Some ''https://blobs/u2/78_thumb_cat.png'',
      description = Some ''a cat'', tags = Some [JStr ''pets''],
      uploadedAt = 7, updatedAt = 7\<rparr>"

definition example_file :: upload_file where
  "example_file = \<lparr>filename = ''cat.png'', content_type = ''image/png'', content = [1, 2, 3]\<rparr>"

definition example_json_loads :: "string \<Rightarrow> exn + jv" where
  "example_json_loads s =
     (if s = ''[]'' then Inr (JArr [])
      else if s = ''[1]'' then Inr (JArr [JNum 1])
      else if s = ''{}'' then Inr (JObj [])
      else if s = ''not json''
        then Inl (Exception JSONDecodeError ''Expecting value: line 1 column 1 (char 0)'')
      else Inl (Exception OtherError ''outside the example''))"

fun in_example :: "string \<times> jv \<Rightarrow> bool" where
  "in_example (k, JStr s) = (k = ''sub'' \<or> k = ''email'')"
| "in_example (k, JNum e) = (k = ''exp'')"
| "in_example (k, v) = False"

fun example_jwt_decode :: "datetime \<Rightarrow> jwt_decoder" where
  "example_jwt_decode now (Opaque s) key algorithms =
     Inl (Exception JWTError ''Not enough segments'')"
| "example_jwt_decode now (Signed claims k a) key algorithms =
     (if \<not> list_all in_example claims then Inl (Exception OtherError ''outside the example'')
      else if k \<noteq> key \<or> a \<notin> set algorithms
      then Inl (Exception JWTError ''Signature verification failed.'')
      else (case map_of claims ''exp'' of
              Some (JNum e) \<Rightarrow>
                if e < timegm now then Inl (Exception JWTError ''Signature has expired.'')
                else Inr claims
            | other \<Rightarrow> Inr claims))"

definition example_collaborators :: "settings \<Rightarrow> account list \<Rightarrow> asset list \<Rightarrow> collaborators" where
  "example_collaborators cfg accounts store =
     \<lparr>cosmos_get_user_by_email = (\<lambda>e. Inr (findByEmail accounts e)),
      cosmos_create_user = Inr,
      cosmos_get_media_by_id = (\<lambda>media_id user_id. Inr (findById store media_id)),
      cosmos_create_media = Inr,
      cosmos_update_media =
        (\<lambda>media_id user_id changes.
           case findById store media_id of
             None \<Rightarrow> Inl (Exception ValueError ''Media not found'')
           | Some a \<Rightarrow> Inr (apply_changes changes a)),
      cosmos_delete_media = (\<lambda>media_id user_id. Inr ()),
      blob_upload_file =
        (\<lambda>data user_id name ctype. Inr (user_id @ ''/'' @ name, ''https://blobs/'' @ user_id @ ''/'' @ name)),
      blob_delete_file = (\<lambda>key. Inr ()),
      validate_file_type = validate_file_type_spec cfg,
      validate_file_size = validate_file_size_spec cfg,
      generate_thumbnail = (\<lambda>data. Inr (Some (take 1 data))),
      json_loads = example_json_loads,
      cipher_hash = (\<lambda>password. Inr (''hash:'' @ password)),
      cipher_verify = (\<lambda>password digest. Inr (digest = ''hash:'' @ password))\<rparr>"

text \<open>Variations: a blob store that refuses every deletion, with an exception of its own
  or with an \<^verbatim>\<open>HTTPException\<close>; one that deletes the primary object of the example
  asset and has nothing else; a thumbnail derivation that gives nothing, and one that
  raises; a blob store that refuses the upload of a preview.\<close>

definition example_blob_store_down :: collaborators where
  "example_blob_store_down =
     (example_collaborators example_settings [] [example_asset])
       \<lparr>blob_delete_file := (\<lambda>key. Inl (Exception OtherError ''blob store down''))\<rparr>"

definition example_blob_store_unavailable :: collaborators where
  "example_blob_store_unavailable =
     (example_collaborators example_settings [] [example_asset])
       \<lparr>blob_delete_file :=
          (\<lambda>key. Inl (HTTPException (HTTPError 503 ''Storage unavailable'' [])))\<rparr>"

definition example_thumbnail_gone :: collaborators where
  "example_thumbnail_gone =
     (example_collaborators example_settings [] [example_asset])
       \<lparr>blob_delete_file :=
          (\<lambda>key. if key = ''u2/77_cat.png'' then Inr ()
                  else Inl (Exception OtherError ''no such blob''))\<rparr>"

definition example_no_thumbnail :: collaborators where
  "example_no_thumbnail =
     (example_collaborators example_settings [] [])\<lparr>generate_thumbnail := (\<lambda>data. Inr None)\<rparr>"

definition example_thumbnail_raises :: collaborators where
  "example_thumbnail_raises =
     (example_collaborators example_settings [] [])
       \<lparr>generate_thumbnail := (\<lambda>data. Inl (Exception OtherError ''cannot identify image file''))\<rparr>"

definition example_preview_refused :: collaborators where
  "example_preview_refused =
     (example_collaborators example_settings [] [])
       \<lparr>blob_upload_file :=
          (\<lambda>data user_id name ctype.
             if ctype = ''image/jpeg'' then Inl (Exception OtherError ''store down'')
             else Inr (user_id @ ''/'' @ name, ''https://blobs/'' @ user_id @ ''/'' @ name))\<rparr>"

section \<open>Claims\<close>

lemmas example_defs =
  example_collaborators_def example_settings_def example_env_def example_file_def
  example_asset_def example_account_def example_json_loads_def
  example_blob_store_down_def example_blob_store_unavailable_def example_thumbnail_gone_def example_no_thumbnail_def
  example_thumbnail_raises_def example_preview_refused_def
  findById_def findByEmail_def validate_file_type_spec_def validate_file_size_spec_def

lemmas handler_defs =
  register_def register_body_def login_def login_body_def
  upload_media_def upload_body_def parse_tags_def store_thumbnail_def
  get_media_by_id_def get_media_body_def
  update_media_metadata_def update_body_def property_changes_def
  delete_media_def delete_body_def delete_thumbnail_def preview_identifier_def split_last_def
  generate_jwt_token_def jwt_encode_def timegm_def timedelta_minutes_def
  parse_jwt_payload_def extract_authenticated_id_def credentials_error_def
  no_store_write_def apply_changes_def Let_def

subsection \<open>Reading one asset\<close>

text \<open>
  C1. Where the store's lookup answers what \<open>findById\<close> finds under the asset id:
  \<^verbatim>\<open>get_media_by_id\<close> fails with 404 "Media not found" when no asset has that id, and
  with 403 when an asset has it and its \<^verbatim>\<open>userId\<close> is not the requester's; the two
  errors are different. Neither failure logs or writes anything.
\<close>

theorem get_media_by_id_not_found_or_forbidden:
  assumes "cosmos_get_media_by_id C media_id user_id = Inr (findById store media_id)"
  shows "(findById store media_id = None \<longrightarrow>
            get_media_by_id C media_id user_id = (Inl (HTTPError 404 ''Media not found'' []), []))
       \<and> (\<forall>a. findById store media_id = Some a \<and> userId a \<noteq> user_id \<longrightarrow>
            get_media_by_id C media_id user_id =
              (Inl (HTTPError 403 ''You don't have permission to access this media'' []), []))
       \<and> HTTPError 404 ''Media not found'' []
            \<noteq> HTTPError 403 ''You don't have permission to access this media'' []"
  using assms by (simp add: get_media_by_id_def get_media_body_def)

theorem get_media_by_id_not_found_or_forbidden_witness:
  "findById [example_asset] ''m9'' = None
   \<and> get_media_by_id (example_collaborators example_settings [] [example_asset]) ''m9'' ''u1''
       = (Inl (HTTPError 404 ''Media not found'' []), [])
   \<and> findById [example_asset] ''m1'' = Some example_asset
   \<and> userId example_asset \<noteq> ''u1''
   \<and> get_media_by_id (example_collaborators example_settings [] [example_asset]) ''m1'' ''u1''
       = (Inl (HTTPError 403 ''You don't have permission to access this media'' []), [])"
  using get_media_by_id_not_found_or_forbidden
          [of "example_collaborators example_settings [] [example_asset]" "''m9''" "''u1''" "[example_asset]"]
        get_media_by_id_not_found_or_forbidden
          [of "example_collaborators example_settings [] [example_asset]" "''m1''" "''u1''" "[example_asset]"]
  by (simp add: example_collaborators_def findById_def example_asset_def)

subsection \<open>Identity extraction\<close>

lemma extract_authenticated_id_other_exception:
  assumes "jwt_decode tok (jwt_secret_key cfg) [jwt_algorithm cfg] = Inl (Exception c m)"
      and "c \<noteq> JWTError"
  shows "extract_authenticated_id jwt_decode cfg tok = Inl (Exception c m)"
  using assms
  by (cases c) (simp_all add: extract_authenticated_id_def parse_jwt_payload_def)

text \<open>
  C5, as amended. \<^verbatim>\<open>extract_authenticated_id\<close> fails with the 401 "Could not validate
  credentials" whenever the library's decode raises \<^verbatim>\<open>JWTError\<close> for the token under
  the configured key and algorithm (which tokens those are is decided by the library);
  it fails with the very same error when the decode returns a claim set without a subject
  (absent or null); and when the decode returns a claim set with a subject, it returns
  that subject.
\<close>

theorem extract_authenticated_id_outcomes:
  "(\<forall>m. jwt_decode tok (jwt_secret_key cfg) [jwt_algorithm cfg] = Inl (Exception JWTError m) \<longrightarrow>
         extract_authenticated_id jwt_decode cfg tok = Inl (HTTPException credentials_error))
   \<and> (\<forall>cl. jwt_decode tok (jwt_secret_key cfg) [jwt_algorithm cfg] = Inr cl
            \<and> (map_of cl ''sub'' = None \<or> map_of cl ''sub'' = Some JNull) \<longrightarrow>
         extract_authenticated_id jwt_decode cfg tok = Inl (HTTPException credentials_error))
   \<and> (\<forall>cl v. jwt_decode tok (jwt_secret_key cfg) [jwt_algorithm cfg] = Inr cl
            \<and> map_of cl ''sub'' = Some v \<and> v \<noteq> JNull \<longrightarrow>
         extract_authenticated_id jwt_decode cfg tok = Inr v)"
proof (intro conjI allI impI)
  fix m
  assume "jwt_decode tok (jwt_secret_key cfg) [jwt_algorithm cfg] = Inl (Exception JWTError m)"
  then show "extract_authenticated_id jwt_decode cfg tok = Inl (HTTPException credentials_error)"
    by (simp add: extract_authenticated_id_def parse_jwt_payload_def)
next
  fix cl
  assume "jwt_decode tok (jwt_secret_key cfg) [jwt_algorithm cfg] = Inr cl
            \<and> (map_of cl ''sub'' = None \<or> map_of cl ''sub'' = Some JNull)"
  then show "extract_authenticated_id jwt_decode cfg tok = Inl (HTTPException credentials_error)"
    by (auto simp add: extract_authenticated_id_def parse_jwt_payload_def)
next
  fix cl v
  assume "jwt_decode tok (jwt_secret_key cfg) [jwt_algorithm cfg] = Inr cl
            \<and> map_of cl ''sub'' = Some v \<and> v \<noteq> JNull"
  then show "extract_authenticated_id jwt_decode cfg tok = Inr v"
    by (cases v) (simp_all add: extract_authenticated_id_def parse_jwt_payload_def)
qed

text \<open>A string that is no token, a token signed with another key, an expired token, a
  token without subject, and a token with one, at second 100.\<close>

theorem extract_authenticated_id_outcomes_witness:
  "extract_authenticated_id (example_jwt_decode 100000000) example_settings (Opaque ''garbage'')
     = Inl (HTTPException credentials_error)
   \<and> extract_authenticated_id (example_jwt_decode 100000000) example_settings
        (Signed [(''sub'', JStr ''u1''), (''exp'', JNum 200)] ''other key'' ''HS256'')
     = Inl (HTTPException credentials_error)
   \<and> extract_authenticated_id (example_jwt_decode 100000000) example_settings
        (Signed [(''sub'', JStr ''u1''), (''exp'', JNum 99)] ''secret'' ''HS256'')
     = Inl (HTTPException credentials_error)
   \<and> extract_authenticated_id (example_jwt_decode 100000000) example_settings
        (Signed [(''exp'', JNum 200)] ''secret'' ''HS256'')
     = Inl (HTTPException credentials_error)
   \<and> extract_authenticated_id (example_jwt_decode 100000000) example_settings
        (Signed [(''sub'', JStr ''u1''), (''exp'', JNum 200)] ''secret'' ''HS256'')
     = Inr (JStr ''u1'')"
  using extract_authenticated_id_outcomes
          [of "example_jwt_decode 100000000" "Opaque ''garbage''" example_settings]
        extract_authenticated_id_outcomes
          [of "example_jwt_decode 100000000"
              "Signed [(''sub'', JStr ''u1''), (''exp'', JNum 200)] ''other key'' ''HS256''" example_settings]
        extract_authenticated_id_outcomes
          [of "example_jwt_decode 100000000"
              "Signed [(''sub'', JStr ''u1''), (''exp'', JNum 99)] ''secret'' ''HS256''" example_settings]
        extract_authenticated_id_outcomes
          [of "example_jwt_decode 100000000"
              "Signed [(''exp'', JNum 200)] ''secret'' ''HS256''" example_settings]
        extract_authenticated_id_outcomes
          [of "example_jwt_decode 100000000"
              "Signed [(''sub'', JStr ''u1''), (''exp'', JNum 200)] ''secret'' ''HS256''" example_settings]
  by (simp add: example_settings_def timegm_def)

text \<open>C5 as stated names two kinds of failure. The code has one: the token signed with
  another key and the validly signed token without a subject get the same exception,
  status, detail and headers alike.\<close>

theorem extract_authenticated_id_single_error:
  "extract_authenticated_id (example_jwt_decode 100000000) example_settings
        (Signed [(''sub'', JStr ''u1''), (''exp'', JNum 200)] ''other key'' ''HS256'')
     = Inl (HTTPException
              (HTTPError 401 ''Could not validate credentials'' [(''WWW-Authenticate'', ''Bearer'')]))
   \<and> extract_authenticated_id (example_jwt_decode 100000000) example_settings
        (Signed [(''exp'', JNum 200)] ''secret'' ''HS256'')
     = Inl (HTTPException
              (HTTPError 401 ''Could not validate credentials'' [(''WWW-Authenticate'', ''Bearer'')]))"
  by (simp add: example_defs handler_defs)

subsection \<open>Login\<close>

text \<open>
  C10. The response of a login for which the store has no account under the email is
  the response of a login whose account exists and whose password does not verify: the
  401 "Invalid email or password", without headers. (The log lines differ.)
\<close>

theorem login_failures_indistinguishable:
  assumes "cosmos_get_user_by_email C1 (lr_email p1) = Inr None"
      and "cosmos_get_user_by_email C2 (lr_email p2) = Inr (Some acc)"
      and "cipher_verify C2 (lr_password p2) (hashed_password acc) = Inr False"
  shows "fst (login C1 cfg1 ev1 p1) = fst (login C2 cfg2 ev2 p2)
       \<and> fst (login C1 cfg1 ev1 p1) = Inl (HTTPError 401 ''Invalid email or password'' [])"
  using assms by (simp add: login_def login_body_def)

theorem login_failures_indistinguishable_witness:
  "fst (login (example_collaborators example_settings [] []) example_settings example_env
          \<lparr>lr_email = ''bo@example.org'', lr_password = ''pw''\<rparr>)
   = fst (login (example_collaborators example_settings [example_account] []) example_settings example_env
          \<lparr>lr_email = ''bo@example.org'', lr_password = ''guess''\<rparr>)
   \<and> fst (login (example_collaborators example_settings [] []) example_settings example_env
          \<lparr>lr_email = ''bo@example.org'', lr_password = ''pw''\<rparr>)
     = Inl (HTTPError 401 ''Invalid email or password'' [])"
proof -
  have a: "cosmos_get_user_by_email (example_collaborators example_settings [] [])
             (lr_email \<lparr>lr_email = ''bo@example.org'', lr_password = ''pw''\<rparr>) = Inr None"
    by (simp add: example_collaborators_def findByEmail_def)
  have b: "cosmos_get_user_by_email (example_collaborators example_settings [example_account] [])
             (lr_email \<lparr>lr_email = ''bo@example.org'', lr_password = ''guess''\<rparr>) = Inr (Some example_account)"
    by (simp add: example_collaborators_def findByEmail_def example_account_def)
  have c: "cipher_verify (example_collaborators example_settings [example_account] [])
             (lr_password \<lparr>lr_email = ''bo@example.org'', lr_password = ''guess''\<rparr>)
             (hashed_password example_account) = Inr False"
    by (simp add: example_collaborators_def example_account_def)
  show ?thesis by (rule login_failures_indistinguishable [OF a b c])
qed

subsection \<open>Registration\<close>

text \<open>
  C7. A registration under an email for which the account store already holds an
  account fails with the 400 "User with this email already exists"; it issues no write
  to the document store, so the accounts after it are the accounts before it.
\<close>

theorem register_duplicate_email:
  assumes "cosmos_get_user_by_email C (uc_email p) = Inr (findByEmail accounts (uc_email p))"
      and "findByEmail accounts (uc_email p) = Some prior"
  shows "fst (register C cfg ev p) = Inl (HTTPError 400 ''User with this email already exists'' [])
       \<and> filter is_db_write (snd (register C cfg ev p)) = []
       \<and> accounts_after (snd (register C cfg ev p)) accounts = accounts"
  using assms by (simp add: register_def register_body_def)

text \<open>Two registrations with one email: the first, on an empty store, creates the
  account; the second, on the store the first one left, is refused and leaves it as it
  is.\<close>

theorem register_duplicate_email_witness:
  "accounts_after
     (snd (register (example_collaborators example_settings [] []) example_settings example_env
             \<lparr>uc_username = ''bo'', uc_email = ''bo@example.org'', uc_password = ''pw''\<rparr>)) []
     = [\<lparr>account_id = ''id-1'', username = ''bo'', email = ''bo@example.org'',
         hashed_password = ''hash:pw'', created_at = 100000000\<rparr>]
   \<and> fst (register
            (example_collaborators example_settings
               [\<lparr>account_id = ''id-1'', username = ''bo'', email = ''bo@example.org'',
                 hashed_password = ''hash:pw'', created_at = 100000000\<rparr>] [])
            example_settings example_env
            \<lparr>uc_username = ''bob'', uc_email = ''bo@example.org'', uc_password = ''other''\<rparr>)
     = Inl (HTTPError 400 ''User with this email already exists'' [])
   \<and> accounts_after
       (snd (register
            (example_collaborators example_settings
               [\<lparr>account_id = ''id-1'', username = ''bo'', email = ''bo@example.org'',
                 hashed_password = ''hash:pw'', created_at = 100000000\<rparr>] [])
            example_settings example_env
            \<lparr>uc_username = ''bob'', uc_email = ''bo@example.org'', uc_password = ''other''\<rparr>))
       [\<lparr>account_id = ''id-1'', username = ''bo'', email = ''bo@example.org'',
         hashed_password = ''hash:pw'', created_at = 100000000\<rparr>]
     = [\<lparr>account_id = ''id-1'', username = ''bo'', email = ''bo@example.org'',
         hashed_password = ''hash:pw'', created_at = 100000000\<rparr>]"
  using register_duplicate_email
    [of "example_collaborators example_settings
               [\<lparr>account_id = ''id-1'', username = ''bo'', email = ''bo@example.org'',
                 hashed_password = ''hash:pw'', created_at = 100000000\<rparr>] []"
        "\<lparr>uc_username = ''bob'', uc_email = ''bo@example.org'', uc_password = ''other''\<rparr>"
        "[\<lparr>account_id = ''id-1'', username = ''bo'', email = ''bo@example.org'',
                 hashed_password = ''hash:pw'', created_at = 100000000\<rparr>]"
        "\<lparr>account_id = ''id-1'', username = ''bo'', email = ''bo@example.org'',
                 hashed_password = ''hash:pw'', created_at = 100000000\<rparr>"
        example_settings example_env]
  by (simp add: example_defs handler_defs)

subsection \<open>Token issuance\<close>

lemma generate_jwt_token_zero_is_default:
  "generate_jwt_token cfg now data (Some 0) = generate_jwt_token cfg now data None"
  by (simp add: generate_jwt_token_def)

text \<open>For a ttl that is not zero, and for none, the expiry is the clock plus the ttl, or
  plus the configured minutes; and the example library accepts an issued token exactly up
  to the second of its expiry.\<close>

lemma generate_jwt_token_expiry:
  "d \<noteq> 0 \<Longrightarrow>
     generate_jwt_token cfg now data (Some d)
       = Signed (AList.update ''exp'' (JNum (timegm (now + d))) data)
           (jwt_secret_key cfg) (jwt_algorithm cfg)"
  "generate_jwt_token cfg now data None
       = Signed (AList.update ''exp''
                   (JNum (timegm (now + timedelta_minutes (jwt_access_token_expire_minutes cfg)))) data)
           (jwt_secret_key cfg) (jwt_algorithm cfg)"
  by (simp_all add: generate_jwt_token_def jwt_encode_def)

lemma in_example_update:
  "list_all in_example data \<Longrightarrow> list_all in_example (AList.update ''exp'' (JNum e) data)"
  by (induction data) auto

lemma issued_token_validates_until_expiry:
  assumes "list_all in_example data"
  shows "parse_jwt_payload (example_jwt_decode t) cfg
           (Signed (AList.update ''exp'' (JNum (timegm expire)) data)
              (jwt_secret_key cfg) (jwt_algorithm cfg))
         = (if timegm t \<le> timegm expire
            then Inr (AList.update ''exp'' (JNum (timegm expire)) data)
            else Inl (HTTPException credentials_error))"
  using in_example_update [OF assms, of "timegm expire"]
  by (auto simp add: parse_jwt_payload_def update_conv')

text \<open>
  C6. The claim wants the expiry of an issued token at now plus the supplied ttl. For the
  supplied ttl \<^verbatim>\<open>timedelta(0)\<close>, with thirty minutes configured and the clock at
  second 100, \<^verbatim>\<open>generate_jwt_token\<close> sets the expiry to second 1900, not to second
  100, and the token still validates at second 101.
\<close>

theorem generate_jwt_token_zero_offset:
  "generate_jwt_token example_settings 100000000 [(''sub'', JStr ''u1'')] (Some 0)
     = Signed [(''sub'', JStr ''u1''), (''exp'', JNum 1900)] ''secret'' ''HS256''
   \<and> parse_jwt_payload (example_jwt_decode 101000000) example_settings
        (generate_jwt_token example_settings 100000000 [(''sub'', JStr ''u1'')] (Some 0))
     = Inr [(''sub'', JStr ''u1''), (''exp'', JNum 1900)]"
  by (simp add: example_defs handler_defs)

subsection \<open>Updating an asset\<close>

text \<open>
  C9. An update of an existing asset by its owner with a description and no tags sends
  the store exactly the changes \<^verbatim>\<open>updatedAt\<close> and \<^verbatim>\<open>description\<close>; applied to the
  stored document they replace the description, set \<^verbatim>\<open>updatedAt\<close> to the current
  instant and leave every other field, the tags among them, as it was. With tags and no
  description it is the description that stays.
\<close>

theorem update_omitted_fields_unchanged:
  assumes "cosmos_get_media_by_id C media_id user_id = Inr (Some a)"
      and "userId a = user_id"
  shows "(\<forall>d. mu_description p = Some d \<and> mu_tags p = None \<longrightarrow>
            filter is_db_write (snd (update_media_metadata C ev media_id p user_id))
              = [DbUpdateMedia media_id user_id
                   [(''updatedAt'', JNum (utcnow ev 0)), (''description'', JStr d)]]
          \<and> apply_changes [(''updatedAt'', JNum (utcnow ev 0)), (''description'', JStr d)] a
              = a\<lparr>description := Some d, updatedAt := utcnow ev 0\<rparr>)
       \<and> (\<forall>ts. mu_description p = None \<and> mu_tags p = Some ts \<longrightarrow>
            filter is_db_write (snd (update_media_metadata C ev media_id p user_id))
              = [DbUpdateMedia media_id user_id
                   [(''updatedAt'', JNum (utcnow ev 0)), (''tags'', JArr (map JStr ts))]]
          \<and> apply_changes [(''updatedAt'', JNum (utcnow ev 0)), (''tags'', JArr (map JStr ts))] a
              = a\<lparr>tags := Some (map JStr ts), updatedAt := utcnow ev 0\<rparr>)"
  using assms
  by (auto simp add: update_media_metadata_def update_body_def property_changes_def
        apply_changes_def Let_def
      split: sum.splits exn.splits)

theorem update_omitted_fields_unchanged_witness:
  "filter is_db_write
     (snd (update_media_metadata (example_collaborators example_settings [] [example_asset])
             example_env ''m1'' \<lparr>mu_description = Some ''a dog'', mu_tags = None\<rparr> ''u2''))
     = [DbUpdateMedia ''m1'' ''u2'' [(''updatedAt'', JNum 100000000), (''description'', JStr ''a dog'')]]
   \<and> apply_changes [(''updatedAt'', JNum 100000000), (''description'', JStr ''a dog'')] example_asset
     = example_asset\<lparr>description := Some ''a dog'', updatedAt := 100000000\<rparr>
   \<and> tags (apply_changes [(''updatedAt'', JNum 100000000), (''description'', JStr ''a dog'')] example_asset)
     = Some [JStr ''pets'']
   \<and> filter is_db_write
     (snd (update_media_metadata (example_collaborators example_settings [] [example_asset])
             example_env ''m1'' \<lparr>mu_description = None, mu_tags = Some [''dogs'']\<rparr> ''u2''))
     = [DbUpdateMedia ''m1'' ''u2'' [(''updatedAt'', JNum 100000000), (''tags'', JArr [JStr ''dogs''])]]
   \<and> apply_changes [(''updatedAt'', JNum 100000000), (''tags'', JArr [JStr ''dogs''])] example_asset
     = example_asset\<lparr>tags := Some [JStr ''dogs''], updatedAt := 100000000\<rparr>"
  using update_omitted_fields_unchanged
    [of "example_collaborators example_settings [] [example_asset]" "''m1''" "''u2''" example_asset
        "\<lparr>mu_description = Some ''a dog'', mu_tags = None\<rparr>" example_env]
    update_omitted_fields_unchanged
    [of "example_collaborators example_settings [] [example_asset]" "''m1''" "''u2''" example_asset
        "\<lparr>mu_description = None, mu_tags = Some [''dogs'']\<rparr>" example_env]
  by (simp add: example_defs handler_defs)

subsection \<open>Deleting an asset\<close>

text \<open>
  C3, as amended. For a delete of an existing asset by its owner: when the deletion of the
  primary blob returns, the deletion of the metadata record is issued whatever the
  deletion of the thumbnail does, and a failing thumbnail deletion is logged as a warning
  and the delete succeeds when the store's deletion returns; when the deletion of the
  primary blob raises, the delete stops there, before the deletion of the metadata
  record: an \<^verbatim>\<open>HTTPException\<close> is passed on as it is, any other exception is logged as
  an error and answered with the 500 "Failed to delete media".
\<close>

theorem delete_media_thumbnail_best_effort:
  assumes "cosmos_get_media_by_id C media_id user_id = Inr (Some a)"
      and "userId a = user_id"
  shows "(blob_delete_file C (fileName a) = Inr () \<longrightarrow>
            DbDeleteMedia media_id user_id \<in> set (snd (delete_media C media_id user_id))
            \<and> (\<forall>e. truthy_str (thumbnailUrl a) \<and> blob_delete_file C (preview_identifier a) = Inl e
                   \<and> cosmos_delete_media C media_id user_id = Inr () \<longrightarrow>
                 delete_media C media_id user_id =
                   (Inr (), [BlobDelete (fileName a), BlobDelete (preview_identifier a),
                             LogExc Warning ''Failed to delete thumbnail: '' e,
                             DbDeleteMedia media_id user_id])))
       \<and> (\<forall>h. blob_delete_file C (fileName a) = Inl (HTTPException h) \<longrightarrow>
            delete_media C media_id user_id = (Inl h, [BlobDelete (fileName a)]))
       \<and> (\<forall>c m. blob_delete_file C (fileName a) = Inl (Exception c m) \<longrightarrow>
            delete_media C media_id user_id =
              (Inl (HTTPError 500 ''Failed to delete media'' []),
               [BlobDelete (fileName a),
                LogExc Error ''Delete media error: '' (Exception c m)]))"
  using assms
  by (auto simp add: delete_media_def delete_body_def delete_thumbnail_def Let_def
      split: sum.splits exn.splits)

text \<open>The thumbnail is gone; the blob store answers the primary deletion with an
  \<^verbatim>\<open>HTTPException\<close>.\<close>

theorem delete_media_thumbnail_best_effort_witness:
  "delete_media example_thumbnail_gone ''m1'' ''u2''
   = (Inr (), [BlobDelete ''u2/77_cat.png'', BlobDelete ''u2/77_thumb_cat.png'',
               LogExc Warning ''Failed to delete thumbnail: '' (Exception OtherError ''no such blob''),
               DbDeleteMedia ''m1'' ''u2''])
   \<and> delete_media example_blob_store_unavailable ''m1'' ''u2''
   = (Inl (HTTPError 503 ''Storage unavailable'' []), [BlobDelete ''u2/77_cat.png''])"
  using delete_media_thumbnail_best_effort
    [of example_thumbnail_gone "''m1''" "''u2''" example_asset]
    delete_media_thumbnail_best_effort
    [of example_blob_store_unavailable "''m1''" "''u2''" example_asset]
  by (simp add: example_defs handler_defs)

text \<open>C3 as stated fails for the primary object: when its deletion raises, the owner's
  delete of the existing asset ends in the 500 "Failed to delete media" and the deletion
  of the metadata record is never issued.\<close>

theorem delete_media_primary_blob_failure_aborts:
  "findById [example_asset] ''m1'' = Some example_asset
   \<and> userId example_asset = ''u2''
   \<and> delete_media example_blob_store_down ''m1'' ''u2''
     = (Inl (HTTPError 500 ''Failed to delete media'' []),
        [BlobDelete ''u2/77_cat.png'',
         LogExc Error ''Delete media error: '' (Exception OtherError ''blob store down'')])"
  by (simp add: example_defs handler_defs)

subsection \<open>Uploading: size\<close>

text \<open>
  C8, as amended. An upload whose content type passes the type validation and whose byte
  length exceeds the configured maximum fails with \<^verbatim>\<open>TooLarge\<close>, which carries the
  actual size, and nothing is written to the blob store or to the document store (the
  request has no effect at all).
\<close>

theorem upload_media_too_large:
  assumes "validate_file_type C f = Inr kind"
      and "validate_file_size C f = validate_file_size_spec cfg f"
      and "max_file_size cfg < length (content f)"
  shows "upload_media C ev f d tgs uid = (Inl (UtilsError (TooLarge (length (content f)))), [])"
  using assms by (simp add: upload_media_def upload_body_def validate_file_size_spec_def)

theorem upload_media_too_large_witness:
  "upload_media (example_collaborators example_settings [] []) example_env
      \<lparr>filename = ''big.png'', content_type = ''image/png'', content = [1, 2, 3, 4, 5]\<rparr>
      None None ''u1''
   = (Inl (UtilsError (TooLarge 5)), [])"
  using upload_media_too_large
    [of "example_collaborators example_settings [] []"
        "\<lparr>filename = ''big.png'', content_type = ''image/png'', content = [1, 2, 3, 4, 5]\<rparr>"
        "''image''" example_settings example_env None None "''u1''"]
  by (simp add: example_defs)

text \<open>C8 as stated fails for a file that is too large and of an unsupported type: the
  type is validated first, and the upload fails with \<^verbatim>\<open>UnsupportedType\<close>.\<close>

theorem upload_media_unsupported_type_before_size:
  "max_file_size example_settings
     < length (content \<lparr>filename = ''notes.txt'', content_type = ''text/plain'', content = [1, 2, 3, 4, 5]\<rparr>)
   \<and> upload_media (example_collaborators example_settings [] []) example_env
      \<lparr>filename = ''notes.txt'', content_type = ''text/plain'', content = [1, 2, 3, 4, 5]\<rparr>
      None None ''u1''
   = (Inl (UtilsError UnsupportedType), [])"
  by (simp add: example_defs handler_defs)

subsection \<open>Uploading: tags\<close>

text \<open>What the tag step does with a payload that decodes to something other than a list,
  and with an exception of \<^verbatim>\<open>json.loads\<close> that is not a \<^verbatim>\<open>JSONDecodeError\<close>: both
  leave the inner \<^verbatim>\<open>try\<close> and end in the 500 of the outer handler, before any
  write.\<close>

lemma parse_tags_not_a_list:
  assumes "t \<noteq> []" and "json_loads C t = Inr v" and "\<not> isinstance_list v"
  shows "parse_tags C (Some t) = Inl (Exception ValueError ''Tags must be an array'')"
  using assms by (cases v) (simp_all add: parse_tags_def)

lemma upload_media_tags_not_a_list:
  assumes "validate_file_type C f = Inr kind"
      and "validate_file_size C f = Inr n"
      and "t \<noteq> []" and "json_loads C t = Inr v" and "\<not> isinstance_list v"
  shows "upload_media C ev f d (Some t) uid =
           (Inl (HTTPError 500 ''Failed to upload media: Tags must be an array'' []),
            [LogExc Error ''Upload error: '' (Exception ValueError ''Tags must be an array'')])"
  using assms(1,2) parse_tags_not_a_list [OF assms(3,4,5)]
  by (simp add: upload_media_def upload_body_def)

lemma upload_media_json_loads_escapes:
  assumes "validate_file_type C f = Inr kind"
      and "validate_file_size C f = Inr n"
      and "t \<noteq> []" and "json_loads C t = Inl (Exception c m)" and "c \<noteq> JSONDecodeError"
  shows "upload_media C ev f d (Some t) uid =
           (Inl (HTTPError 500 (''Failed to upload media: '' @ m) []),
            [LogExc Error ''Upload error: '' (Exception c m)])"
  using assms
  by (cases c) (simp_all add: upload_media_def upload_body_def parse_tags_def)

lemma upload_body_writes_primary_blob:
  assumes "validate_file_type C f = Inr kind"
      and "validate_file_size C f = Inr n"
      and "parse_tags C tgs = Inr lc"
  shows "BlobUpload (content f) uid (filename f) (content_type f)
           \<in> set (snd (upload_body C ev f d tgs uid))"
  using assms
  by (auto simp add: upload_body_def Let_def split: sum.splits prod.splits)

lemma snd_upload_media:
  "set (snd (upload_body C ev f d tgs uid)) \<subseteq> set (snd (upload_media C ev f d tgs uid))"
  by (auto simp add: upload_media_def split: prod.splits sum.splits exn.splits)

text \<open>
  C2, as amended. For an upload that passes the type and the size validation and carries
  a non-empty tag payload: when \<^verbatim>\<open>json.loads\<close> raises \<^verbatim>\<open>JSONDecodeError\<close> on the
  payload, the upload fails with the 400 "Invalid tags format. Must be a JSON array." and
  the request has no effect, so nothing was written to the blob store or to the document
  store; when the payload decodes to an array, the tag step accepts it whatever its
  elements are, and the upload goes on to the write of the primary blob.
\<close>

theorem upload_media_malformed_tags:
  assumes "validate_file_type C f = Inr kind"
      and "validate_file_size C f = Inr n"
      and "t \<noteq> []"
  shows "(\<forall>m. json_loads C t = Inl (Exception JSONDecodeError m) \<longrightarrow>
            upload_media C ev f d (Some t) uid =
              (Inl (HTTPError 400 ''Invalid tags format. Must be a JSON array.'' []), []))
       \<and> (\<forall>xs. json_loads C t = Inr (JArr xs) \<longrightarrow>
            parse_tags C (Some t) = Inr (Some xs)
            \<and> BlobUpload (content f) uid (filename f) (content_type f)
                \<in> set (snd (upload_media C ev f d (Some t) uid)))"
proof (intro conjI allI impI)
  fix m
  assume "json_loads C t = Inl (Exception JSONDecodeError m)"
  with assms show "upload_media C ev f d (Some t) uid =
              (Inl (HTTPError 400 ''Invalid tags format. Must be a JSON array.'' []), [])"
    by (simp add: upload_media_def upload_body_def parse_tags_def)
next
  fix xs
  assume a: "json_loads C t = Inr (JArr xs)"
  with assms(3) show p: "parse_tags C (Some t) = Inr (Some xs)"
    by (simp add: parse_tags_def)
  from upload_body_writes_primary_blob [OF assms(1,2) p] snd_upload_media
  show "BlobUpload (content f) uid (filename f) (content_type f)
                \<in> set (snd (upload_media C ev f d (Some t) uid))"
    by blast
qed

theorem upload_media_malformed_tags_witness:
  "upload_media (example_collaborators example_settings [] []) example_env example_file
      None (Some ''not json'') ''u1''
   = (Inl (HTTPError 400 ''Invalid tags format. Must be a JSON array.'' []), [])
   \<and> example_json_loads ''[]'' = Inr (JArr [])
   \<and> parse_tags (example_collaborators example_settings [] []) (Some ''[]'') = Inr (Some [])
   \<and> BlobUpload [1, 2, 3] ''u1'' ''cat.png'' ''image/png''
       \<in> set (snd (upload_media (example_collaborators example_settings [] []) example_env
                      example_file None (Some ''[]'') ''u1''))"
  using upload_media_malformed_tags
    [of "example_collaborators example_settings [] []" example_file "''image''" 3 "''not json''"
        example_env None "''u1''"]
    upload_media_malformed_tags
    [of "example_collaborators example_settings [] []" example_file "''image''" 3 "''[]''"
        example_env None "''u1''"]
  by (simp add: example_defs)

text \<open>C2 as stated fails for an array whose elements are not strings: the payload
  \<^verbatim>\<open>[1]\<close> is accepted, both blobs and the document are written, and the stored tags
  are the list with the number 1.\<close>

theorem upload_media_accepts_array_of_numbers:
  "example_json_loads ''[1]'' = Inr (JArr [JNum 1])
   \<and> upload_media (example_collaborators example_settings [] []) example_env example_file
      None (Some ''[1]'') ''u1''
   = (Inr \<lparr>asset_id = ''id-1'', userId = ''u1'', fileName = ''u1/cat.png'',
           originalFileName = ''cat.png'', mediaType = ''image'', fileSize = 3,
           mimeType = ''image/png'', blobUrl = ''https://blobs/u1/cat.png'',
           thumbnailUrl = Some ''https://blobs/u1/thumb_cat.png'',
           description = None, tags = Some [JNum 1],
           uploadedAt = 100000000, updatedAt = 100000000\<rparr>,
      [BlobUpload [1, 2, 3] ''u1'' ''cat.png'' ''image/png'',
       BlobUpload [1] ''u1'' ''thumb_cat.png'' ''image/jpeg'',
       DbCreateMedia
         \<lparr>asset_id = ''id-1'', userId = ''u1'', fileName = ''u1/cat.png'',
          originalFileName = ''cat.png'', mediaType = ''image'', fileSize = 3,
          mimeType = ''image/png'', blobUrl = ''https://blobs/u1/cat.png'',
          thumbnailUrl = Some ''https://blobs/u1/thumb_cat.png'',
          description = None, tags = Some [JNum 1],
          uploadedAt = 100000000, updatedAt = 100000000\<rparr>])"
  by (simp add: example_defs handler_defs)

subsection \<open>Uploading: the thumbnail\<close>



text \<open>A derivation that raises leaves the inner block: the upload ends in the outer
  handler after the primary blob was written.\<close>

lemma upload_media_thumbnail_raises:
  assumes "validate_file_type C f = Inr ''image''"
      and "validate_file_size C f = Inr n"
      and "parse_tags C tgs = Inr lc"
      and "blob_upload_file C (content f) uid (filename f) (content_type f) = Inr (key, url)"
      and "generate_thumbnail C (content f) = Inl (Exception c m)"
  shows "upload_media C ev f d tgs uid =
           (Inl (HTTPError 500 (''Failed to upload media: '' @ m) []),
            [BlobUpload (content f) uid (filename f) (content_type f),
             LogExc Error ''Upload error: '' (Exception c m)])"
  using assms by (simp add: upload_media_def upload_body_def store_thumbnail_def)




end
